theory Spec2Isabelle
  imports Main "HOL-Library.Word" "HOL-Library.Char_ord" "HOL-Library.List_Lexorder"
    "HOL-Library.AList" "HOL-Library.Sublist"
begin

unbundle bit_operations_syntax

section \<open>Bytes, strings and formatting\<close>

text \<open>
  A Go \<^verbatim>\<open>string\<close> and a \<^verbatim>\<open>[]byte\<close> are both byte sequences; they are modelled as
  \<^typ>\<open>string\<close> (a list of 8-bit characters).  The result of \<^verbatim>\<open>sha1.Sum\<close>, a
  \<^verbatim>\<open>[20]byte\<close>, is a list of 8-bit words.
\<close>

type_synonym byte = "8 word"
type_synonym u32 = "32 word"

definition NUL :: char where
  "NUL = CHR 0x00"

definition LF :: char where
  "LF = CHR 0x0A"

definition digit :: "nat \<Rightarrow> char" where
  "digit n = ''0123456789'' ! n"

text \<open>The verb \<^verbatim>\<open>%d\<close> of package fmt on a non-negative integer.\<close>

function itoa :: "nat \<Rightarrow> string" where
  "itoa n = (if n < 10 then [digit n] else itoa (n div 10) @ [digit (n mod 10)])"
  by pat_completeness auto
termination by (relation "measure id") simp_all

declare itoa.simps [simp del]

definition hexdigit :: "byte \<Rightarrow> char" where
  "hexdigit n = ''0123456789abcdef'' ! unat n"

text \<open>The verb \<^verbatim>\<open>%x\<close> of package fmt on a byte array: two lowercase digits per byte.\<close>

definition hex :: "byte list \<Rightarrow> string" where
  "hex bs = concat (map (\<lambda>b. [hexdigit (drop_bit 4 b), hexdigit (b AND 15)]) bs)"

text \<open>\<^verbatim>\<open>strings.Split(s, sep)\<close> for a separator of one byte: always at least one piece.\<close>

fun split_on :: "char \<Rightarrow> string \<Rightarrow> string list" where
  "split_on d [] = [[]]"
| "split_on d (c # cs) =
     (if c = d then [] # split_on d cs
      else (case split_on d cs of [] \<Rightarrow> [[c]] | w # ws \<Rightarrow> (c # w) # ws))"

text \<open>\<^verbatim>\<open>strings.Join(elems, sep)\<close>.\<close>

fun strings_Join :: "string list \<Rightarrow> string \<Rightarrow> string" where
  "strings_Join [] sep = []"
| "strings_Join [x] sep = x"
| "strings_Join (x # y # ys) sep = x @ sep @ strings_Join (y # ys) sep"

section \<open>SHA-1 (package crypto/sha1)\<close>

text \<open>
  \<^verbatim>\<open>sha1.Sum\<close> is library code; it is modelled by the algorithm of FIPS 180 on 32-bit
  words.  \<^term>\<open>take_bit 32\<close> is the identity on a 32-bit word; it is written out where
  a result is stored so that evaluated numerals stay below \<open>2^32\<close>.
\<close>

definition rotl :: "nat \<Rightarrow> u32 \<Rightarrow> u32" where
  "rotl n x = take_bit 32 (push_bit n x) OR drop_bit (32 - n) x"

definition be32 :: "u32 \<Rightarrow> byte list" where
  "be32 w = [ucast (drop_bit 24 w), ucast (drop_bit 16 w AND 255),
             ucast (drop_bit 8 w AND 255), ucast (w AND 255)]"

definition be64 :: "64 word \<Rightarrow> byte list" where
  "be64 w = map (\<lambda>i. ucast (drop_bit i w AND 255)) [56, 48, 40, 32, 24, 16, 8, 0]"

definition byte_of :: "char \<Rightarrow> byte" where
  "byte_of c = of_nat (of_char c)"

definition sha1_pad :: "string \<Rightarrow> byte list" where
  "sha1_pad m = map byte_of m @ [0x80] @ replicate ((119 - length m mod 64) mod 64) 0
      @ be64 (8 * of_nat (length m))"

fun words_of :: "byte list \<Rightarrow> u32 list" where
  "words_of (a # b # c # d # r) =
     (push_bit 24 (ucast a) OR push_bit 16 (ucast b) OR push_bit 8 (ucast c) OR ucast d)
       # words_of r"
| "words_of _ = []"

type_synonym sha1_state = "u32 \<times> u32 \<times> u32 \<times> u32 \<times> u32"

definition sha1_f :: "nat \<Rightarrow> u32 \<Rightarrow> u32 \<Rightarrow> u32 \<Rightarrow> u32" where
  "sha1_f i b c d =
     (if i < 20 then (b AND c) OR (NOT b AND d)
      else if i < 40 then b XOR c XOR d
      else if i < 60 then (b AND c) OR (b AND d) OR (c AND d)
      else b XOR c XOR d)"

definition sha1_k :: "nat \<Rightarrow> u32" where
  "sha1_k i = (if i < 20 then 0x5A827999 else if i < 40 then 0x6ED9EBA1
               else if i < 60 then 0x8F1BBCDC else 0xCA62C1D6)"

text \<open>
  One round.  The second component is the window \<open>w\<^sub>i, \<dots>, w\<^sub>i\<^sub>+\<^sub>1\<^sub>5\<close> of the message
  schedule; the round uses its head and appends \<open>w\<^sub>i\<^sub>+\<^sub>1\<^sub>6\<close>.
\<close>

fun sha1_round :: "sha1_state \<times> u32 list \<Rightarrow> nat \<Rightarrow> sha1_state \<times> u32 list" where
  "sha1_round ((a, b, c, d, e), w) i =
     ((take_bit 32 (rotl 5 a + sha1_f i b c d + e + sha1_k i + w ! 0), a, rotl 30 b, c, d),
      tl w @ [rotl 1 (w ! 13 XOR w ! 8 XOR w ! 2 XOR w ! 0)])"

function sha1_rounds :: "nat \<Rightarrow> sha1_state \<times> u32 list \<Rightarrow> sha1_state" where
  "sha1_rounds i s = (if i < 80 then sha1_rounds (i + 1) (sha1_round s i) else fst s)"
  by pat_completeness auto
termination by (relation "measure (\<lambda>(i, s). 80 - i)") simp_all

declare sha1_rounds.simps [simp del]

fun sha1_block :: "sha1_state \<Rightarrow> u32 list \<Rightarrow> sha1_state" where
  "sha1_block (h0, h1, h2, h3, h4) ws =
     (case sha1_rounds 0 ((h0, h1, h2, h3, h4), ws) of
        (a, b, c, d, e) \<Rightarrow>
          (take_bit 32 (h0 + a), take_bit 32 (h1 + b), take_bit 32 (h2 + c),
           take_bit 32 (h3 + d), take_bit 32 (h4 + e)))"

function sha1_blocks :: "sha1_state \<Rightarrow> u32 list \<Rightarrow> sha1_state" where
  "sha1_blocks s ws =
     (if length ws < 16 then s else sha1_blocks (sha1_block s (take 16 ws)) (drop 16 ws))"
  by pat_completeness auto
termination by (relation "measure (\<lambda>(s, ws). length ws)") simp_all

declare sha1_blocks.simps [simp del]

definition sha1_Sum :: "string \<Rightarrow> byte list" where
  "sha1_Sum m =
     (case sha1_blocks (0x67452301, 0xEFCDAB89, 0x98BADCFE, 0x10325476, 0xC3D2E1F0)
             (words_of (sha1_pad m)) of
        (a, b, c, d, e) \<Rightarrow> concat (map be32 [a, b, c, d, e]))"

section \<open>Errors\<close>

text \<open>
  Go errors as values.  \<^verbatim>\<open>fmt.Errorf\<close> keeps its format string and the rendered
  arguments; with the verb \<^verbatim>\<open>%w\<close> it wraps an error (\<open>Wrapf\<close>).  A run-time panic
  (an index out of range) is the value \<open>Panic\<close>.
\<close>

datatype os_error = ENOENT | ENOTDIR | EISDIR | EINVAL

datatype error =
    ErrRepositoryAlreadyInitialized
  | ErrInvalidHash
  | EOF
  | PathError os_error
  | ZlibError
  | Errorf string "string list"
  | Wrapf string "string list" error
  | Panic string

text \<open>\<^verbatim>\<open>errors.Is\<close>: the error itself or one that it wraps.\<close>

fun errors_Is :: "error \<Rightarrow> error \<Rightarrow> bool" where
  "errors_Is (Wrapf f as e) t = (Wrapf f as e = t \<or> errors_Is e t)"
| "errors_Is e t = (e = t)"

section \<open>The file system\<close>

text \<open>
  A file system is a tree of regular files and directories (no symbolic links, no
  permissions).  A path is the list of its components from the root of the file system,
  already resolved and clean.
\<close>

type_synonym path = "string list"

datatype node = File string | Dir "(string \<times> node) list"

datatype fs_call =
    SysOpen path | SysReadDir path | SysMkdirAll path | SysCreate path
  | SysWrite path | SysWriteFile path

text \<open>The state: the tree, and the calls made to the operating system so far.\<close>

record fs =
  tree :: node
  trace :: "fs_call list"

text \<open>
  \<^verbatim>\<open>path.Join\<close> followed by the resolution of the result: the elements are split at
  \<^verbatim>\<open>/\<close>, empty and \<^verbatim>\<open>.\<close> components are dropped and \<^verbatim>\<open>..\<close> removes the
  component before it.
\<close>

definition clean_step :: "path \<Rightarrow> string \<Rightarrow> path" where
  "clean_step p c = (if c = [] \<or> c = ''.'' then p else if c = ''..'' then butlast p else p @ [c])"

definition path_Join :: "path \<Rightarrow> string list \<Rightarrow> path" where
  "path_Join base elems = foldl clean_step base (concat (map (split_on (CHR ''/'')) elems))"

definition path_string :: "path \<Rightarrow> string" where
  "path_string p = concat (map (\<lambda>c. CHR ''/'' # c) p)"

fun lookup :: "node \<Rightarrow> path \<Rightarrow> os_error + node" where
  "lookup n [] = Inr n"
| "lookup (File c) (x # xs) = Inl ENOTDIR"
| "lookup (Dir kids) (x # xs) =
     (case map_of kids x of None \<Rightarrow> Inl ENOENT | Some k \<Rightarrow> lookup k xs)"

text \<open>
  \<^verbatim>\<open>os.MkdirAll\<close>: nothing to do for a directory that exists, \<^verbatim>\<open>ENOTDIR\<close> when a
  regular file is in the way, otherwise the missing directories are created.
\<close>

fun mkdir_all :: "node \<Rightarrow> path \<Rightarrow> os_error + node" where
  "mkdir_all (File c) p = Inl ENOTDIR"
| "mkdir_all (Dir kids) [] = Inr (Dir kids)"
| "mkdir_all (Dir kids) (x # xs) =
     (case map_of kids x of
        None \<Rightarrow>
          (case mkdir_all (Dir []) xs of
             Inl e \<Rightarrow> Inl e
           | Inr k \<Rightarrow> Inr (Dir (kids @ [(x, k)])))
      | Some k \<Rightarrow>
          (case mkdir_all k xs of
             Inl e \<Rightarrow> Inl e
           | Inr k' \<Rightarrow> Inr (Dir (AList.update x k' kids))))"

text \<open>
  Opening a path with \<^verbatim>\<open>O_CREATE|O_TRUNC\<close> and leaving the given content in it: the
  parent directory must exist and the path must not be a directory.
\<close>

fun put_file :: "node \<Rightarrow> path \<Rightarrow> string \<Rightarrow> os_error + node" where
  "put_file (File c0) [] c = Inr (File c)"
| "put_file (Dir kids) [] c = Inl EISDIR"
| "put_file (File c0) (x # xs) c = Inl ENOTDIR"
| "put_file (Dir kids) (x # xs) c =
     (case map_of kids x of
        None \<Rightarrow> (if xs = [] then Inr (Dir (kids @ [(x, File c)])) else Inl ENOENT)
      | Some k \<Rightarrow>
          (case put_file k xs c of
             Inl e \<Rightarrow> Inl e
           | Inr k' \<Rightarrow> Inr (Dir (AList.update x k' kids))))"

definition os_Open :: "path \<Rightarrow> fs \<Rightarrow> (error + node) \<times> fs" where
  "os_Open p s =
     (case lookup (tree s) p of Inl e \<Rightarrow> Inl (PathError e) | Inr n \<Rightarrow> Inr n,
      s\<lparr>trace := trace s @ [SysOpen p]\<rparr>)"

text \<open>\<^verbatim>\<open>os.ReadDir\<close> returns the entries sorted by file name.\<close>

definition os_ReadDir :: "node \<Rightarrow> error + (string \<times> node) list" where
  "os_ReadDir n = (case n of File c \<Rightarrow> Inl (PathError ENOTDIR) | Dir kids \<Rightarrow> Inr (sort_key fst kids))"

definition os_MkdirAll :: "path \<Rightarrow> fs \<Rightarrow> error option \<times> fs" where
  "os_MkdirAll p s =
     (case mkdir_all (tree s) p of
        Inl e \<Rightarrow> (Some (PathError e), s\<lparr>trace := trace s @ [SysMkdirAll p]\<rparr>)
      | Inr t \<Rightarrow> (None, s\<lparr>tree := t, trace := trace s @ [SysMkdirAll p]\<rparr>))"

definition os_Create :: "path \<Rightarrow> fs \<Rightarrow> error option \<times> fs" where
  "os_Create p s =
     (case put_file (tree s) p [] of
        Inl e \<Rightarrow> (Some (PathError e), s\<lparr>trace := trace s @ [SysCreate p]\<rparr>)
      | Inr t \<Rightarrow> (None, s\<lparr>tree := t, trace := trace s @ [SysCreate p]\<rparr>))"

text \<open>Writing through the descriptor of a file that was just created at \<open>p\<close>.\<close>

definition fd_Write :: "path \<Rightarrow> string \<Rightarrow> fs \<Rightarrow> fs" where
  "fd_Write p c s =
     (case put_file (tree s) p c of
        Inl e \<Rightarrow> s\<lparr>trace := trace s @ [SysWrite p]\<rparr>
      | Inr t \<Rightarrow> s\<lparr>tree := t, trace := trace s @ [SysWrite p]\<rparr>)"

definition os_WriteFile :: "path \<Rightarrow> string \<Rightarrow> fs \<Rightarrow> error option \<times> fs" where
  "os_WriteFile p c s =
     (case put_file (tree s) p c of
        Inl e \<Rightarrow> (Some (PathError e), s\<lparr>trace := trace s @ [SysWriteFile p]\<rparr>)
      | Inr t \<Rightarrow> (None, s\<lparr>tree := t, trace := trace s @ [SysWriteFile p]\<rparr>))"

text \<open>\<^verbatim>\<open>ioutil.ReadAll\<close> on an open file.\<close>

definition file_ReadAll :: "node \<Rightarrow> error + string" where
  "file_ReadAll f = (case f of File c \<Rightarrow> Inr c | Dir kids \<Rightarrow> Inl (PathError EISDIR))"

section \<open>Compression (package compress/zlib) and buffered reading (package bufio)\<close>

text \<open>
  The zlib codec is a parameter.  \<open>deflate\<close> is what a \<^verbatim>\<open>zlib.Writer\<close> leaves in its
  sink once it is closed.  \<open>inflate\<close> is \<open>None\<close> when \<^verbatim>\<open>zlib.NewReader\<close> rejects the
  header; otherwise it is the stream that the reader delivers: the bytes, and the error that
  ends them (\<open>EOF\<close> for an intact stream).  \<open>codec_ok\<close> is the round-trip law.
\<close>

record codec =
  deflate :: "string \<Rightarrow> string"
  inflate :: "string \<Rightarrow> (string \<times> error) option"

definition codec_ok :: "codec \<Rightarrow> bool" where
  "codec_ok z = (\<forall>x. inflate z (deflate z x) = Some (x, EOF))"

type_synonym reader = "string \<times> error"

definition zlib_NewReader :: "codec \<Rightarrow> node \<Rightarrow> error + reader" where
  "zlib_NewReader z f =
     (case f of
        Dir kids \<Rightarrow> Inl (PathError EISDIR)
      | File c \<Rightarrow> (case inflate z c of None \<Rightarrow> Inl ZlibError | Some st \<Rightarrow> Inr st))"

text \<open>\<^verbatim>\<open>ioutil.ReadAll\<close> on a stream.\<close>

definition ReadAll :: "reader \<Rightarrow> error + string" where
  "ReadAll br = (if snd br = EOF then Inr (fst br) else Inl (snd br))"

text \<open>
  A \<^verbatim>\<open>bufio.Reader\<close> on a stream whose remaining bytes are all in the buffer (an object
  of at most 4096 bytes that the decompressor hands over in one read).
  \<^verbatim>\<open>ReadString\<close> returns the bytes up to and including the delimiter, or the error
  that ends the stream when the delimiter does not occur.  \<^verbatim>\<open>Peek(1)\<close> fails at the end
  of the stream only.  \<^verbatim>\<open>Read(p)\<close> copies what is buffered, at most \<open>len(p)\<close> bytes, and
  fails only when nothing is left; the count that it returns is dropped by the callers.
\<close>

definition ReadString :: "reader \<Rightarrow> char \<Rightarrow> (error + string) \<times> reader" where
  "ReadString br delim =
     (if delim \<in> set (fst br)
      then (Inr (takeWhile (\<lambda>c. c \<noteq> delim) (fst br) @ [delim]),
            (tl (dropWhile (\<lambda>c. c \<noteq> delim) (fst br)), snd br))
      else (Inl (snd br), ([], snd br)))"

definition Peek :: "reader \<Rightarrow> error + string" where
  "Peek br = (if fst br = [] then Inl (snd br) else Inr (take 1 (fst br)))"

definition Read :: "reader \<Rightarrow> nat \<Rightarrow> (error + string) \<times> reader" where
  "Read br n =
     (if fst br = [] then (Inl (snd br), br)
      else (Inr (take n (fst br)), (drop n (fst br), snd br)))"

section \<open>The repository\<close>

record Repository =
  root :: path
  initialized :: bool

definition NewRepository :: "path \<Rightarrow> Repository" where
  "NewRepository rt = \<lparr>root = rt, initialized = False\<rparr>"

text \<open>The loop of \<^verbatim>\<open>Init\<close> over the three directories.\<close>

fun Init_dirs :: "path list \<Rightarrow> fs \<Rightarrow> error option \<times> fs" where
  "Init_dirs [] s = (None, s)"
| "Init_dirs (dir # dirs) s =
     (case os_MkdirAll dir s of
        (Some err, s1) \<Rightarrow> (Some (Wrapf ''error creating directory %s: %w'' [path_string dir] err), s1)
      | (None, s1) \<Rightarrow> Init_dirs dirs s1)"

text \<open>
  \<^verbatim>\<open>Init\<close> returns the closure \<^verbatim>\<open>cleanup\<close> without running it; the model returns the
  error, the handle and the file system.
\<close>

definition Init :: "Repository \<Rightarrow> fs \<Rightarrow> error option \<times> Repository \<times> fs" where
  "Init r s =
     (if initialized r then (Some ErrRepositoryAlreadyInitialized, r, s)
      else
        (case Init_dirs [path_Join (root r) [''.git''], path_Join (root r) [''.git/objects''],
                         path_Join (root r) [''.git/refs'']] s of
           (Some err, s1) \<Rightarrow> (Some err, r, s1)
         | (None, s1) \<Rightarrow>
             (let filePath = path_Join (root r) [''.git/HEAD'']
              in case os_WriteFile filePath (''ref: refs/heads/master'' @ [LF]) s1 of
                   (Some err, s2) \<Rightarrow>
                     (Some (Wrapf ''error writing to file %s: %w'' [path_string filePath] err), r, s2)
                 | (None, s2) \<Rightarrow> (None, r\<lparr>initialized := True\<rparr>, s2))))"

definition CatFile :: "codec \<Rightarrow> Repository \<Rightarrow> string \<Rightarrow> fs \<Rightarrow> (error + string) \<times> fs" where
  "CatFile z r hash s =
     (let isValid = (length hash = 40) in
      if \<not> isValid
      then (Inl (Wrapf ''%w expected 40 characters, got: %d'' [itoa (length hash)] ErrInvalidHash), s)
      else
        (let blobPath = path_Join (root r) [''.git'', ''objects'', take 2 hash, drop 2 hash]
         in case os_Open blobPath s of
              (Inl err, s1) \<Rightarrow>
                (if errors_Is err (PathError ENOENT)
                 then (Inl (Errorf ''object: %s does not exist'' [path_string blobPath]), s1)
                 else (Inl (Wrapf ''failed to open file: %w'' [] err), s1))
            | (Inr blobFile, s1) \<Rightarrow>
                (case zlib_NewReader z blobFile of
                   Inl err \<Rightarrow> (Inl (Wrapf ''failed to read the contents: %w'' [] err), s1)
                 | Inr reader \<Rightarrow>
                     (case ReadAll reader of
                        Inl err \<Rightarrow> (Inl (Wrapf ''failed to read the contents: %w'' [] err), s1)
                      | Inr contents \<Rightarrow>
                          (case split_on NUL contents of
                             x0 # x1 # xs \<Rightarrow> (Inr x1, s1)
                           | _ \<Rightarrow> (Inl (Panic ''index out of range [1] with length 1''), s1))))))"

section \<open>Reading a tree\<close>

text \<open>The loop of \<^verbatim>\<open>ReadTree\<close>: one entry per iteration, until the lookahead fails.\<close>

function readEntries :: "reader \<Rightarrow> string list \<Rightarrow> error + string list" where
  "readEntries br names =
     (case Peek br of
        Inl err \<Rightarrow> (if err = EOF then Inr names else Inl (Wrapf ''error peeking: %w'' [] err))
      | Inr b \<Rightarrow>
          (case ReadString br (CHR '' '') of
             (Inl err, br1) \<Rightarrow> Inl (Wrapf ''error reading mode: %w'' [] err)
           | (Inr mode, br1) \<Rightarrow>
               (case ReadString br1 NUL of
                  (Inl err, br2) \<Rightarrow> Inl (Wrapf ''error reading name: %w'' [] err)
                | (Inr name, br2) \<Rightarrow>
                    (case Read br2 20 of
                       (Inl err, br3) \<Rightarrow> Inl (Wrapf ''error reading hash: %w'' [] err)
                     | (Inr h, br3) \<Rightarrow> readEntries br3 (names @ [hd (split_on NUL name)])))))"
  by pat_completeness auto
termination
proof (relation "measure (\<lambda>(br, names). length (fst br))", goal_cases)
  case 1
  show ?case by simp
next
  case 2
  have rs: "length (fst br') < length (fst br)"
    if "(Inr x, br') = ReadString br d" for x br' br d
  proof -
    from that have mem: "d \<in> set (fst br)"
      and br': "fst br' = tl (dropWhile (\<lambda>c. c \<noteq> d) (fst br))"
      by (auto simp: ReadString_def split: if_splits)
    have "length (dropWhile (\<lambda>c. c \<noteq> d) (fst br)) \<le> length (fst br)"
      by (rule length_dropWhile_le)
    moreover from mem have "0 < length (fst br)"
      by (cases "fst br") auto
    ultimately have "length (dropWhile (\<lambda>c. c \<noteq> d) (fst br)) - 1 < length (fst br)"
      by arith
    then show ?thesis
      by (simp add: br')
  qed
  have rd: "length (fst br') \<le> length (fst br)"
    if "(Inr x, br') = Read br n" for x br' br n
    using that by (auto simp: Read_def split: if_splits)
  from 2 show ?case
    by (auto dest!: rs rd)
qed

declare readEntries.simps [simp del]

text \<open>
  \<^verbatim>\<open>ReadTree\<close> as in the current revision of the package.  \<^verbatim>\<open>sort.StringSlice(names)\<close>
  is a conversion of the slice to the type \<^verbatim>\<open>sort.StringSlice\<close>; it does not call
  \<^verbatim>\<open>Sort\<close>, so the names are joined in the order in which they were read.
\<close>

definition ReadTree :: "codec \<Rightarrow> Repository \<Rightarrow> string \<Rightarrow> fs \<Rightarrow> (error + string) \<times> fs" where
  "ReadTree z r hash s =
     (let isValid = (length hash = 40) in
      if \<not> isValid
      then (Inl (Wrapf ''%w expected 40 characters, got: %d'' [itoa (length hash)] ErrInvalidHash), s)
      else
        (let blobPath = path_Join (root r) [''.git'', ''objects'', take 2 hash, drop 2 hash]
         in case os_Open blobPath s of
              (Inl err, s1) \<Rightarrow> (Inl (Wrapf ''failed to open file: %w'' [] err), s1)
            | (Inr blobFile, s1) \<Rightarrow>
                (case zlib_NewReader z blobFile of
                   Inl err \<Rightarrow> (Inl (Wrapf ''failed to read the contents: %w'' [] err), s1)
                 | Inr br \<Rightarrow>
                     (case ReadString br (CHR '' '') of
                        (Inl err, br1) \<Rightarrow> (Inl (Wrapf ''error reading type: %w'' [] err), s1)
                      | (Inr typ, br1) \<Rightarrow>
                          (if typ \<noteq> ''tree ''
                           then (Inl (Errorf ''expected type to be tree, got: %s'' [typ]), s1)
                           else
                             (case ReadString br1 NUL of
                                (Inl err, br2) \<Rightarrow>
                                  (Inl (Wrapf ''error reading null byte: %w'' [] err), s1)
                              | (Inr len, br2) \<Rightarrow>
                                  (case readEntries br2 [] of
                                     Inl err \<Rightarrow> (Inl err, s1)
                                   | Inr names \<Rightarrow>
                                       (Inr (strings_Join names [LF] @ [LF]), s1))))))))"

text \<open>
  The older \<^verbatim>\<open>ReadTree\<close> of \<^verbatim>\<open>cmd/mygit/git/git.go\<close>: it keeps
  \<^verbatim>\<open>name[:len("\x00")-1]\<close>, the empty prefix of every name, and adds no final newline.
\<close>

function readEntries_cmd :: "reader \<Rightarrow> string list \<Rightarrow> error + string list" where
  "readEntries_cmd br names =
     (case Peek br of
        Inl err \<Rightarrow> (if err = EOF then Inr names else Inl (Wrapf ''error peeking: %w'' [] err))
      | Inr b \<Rightarrow>
          (case ReadString br (CHR '' '') of
             (Inl err, br1) \<Rightarrow> Inl (Wrapf ''error reading mode: %w'' [] err)
           | (Inr mode, br1) \<Rightarrow>
               (case ReadString br1 NUL of
                  (Inl err, br2) \<Rightarrow> Inl (Wrapf ''error reading name: %w'' [] err)
                | (Inr name, br2) \<Rightarrow>
                    (case Read br2 20 of
                       (Inl err, br3) \<Rightarrow> Inl (Wrapf ''error reading hash: %w'' [] err)
                     | (Inr h, br3) \<Rightarrow>
                         readEntries_cmd br3 (names @ [take (length [NUL] - 1) name])))))"
  by pat_completeness auto
termination
proof (relation "measure (\<lambda>(br, names). length (fst br))", goal_cases)
  case 1
  show ?case by simp
next
  case 2
  have rs: "length (fst br') < length (fst br)"
    if "(Inr x, br') = ReadString br d" for x br' br d
  proof -
    from that have mem: "d \<in> set (fst br)"
      and br': "fst br' = tl (dropWhile (\<lambda>c. c \<noteq> d) (fst br))"
      by (auto simp: ReadString_def split: if_splits)
    have "length (dropWhile (\<lambda>c. c \<noteq> d) (fst br)) \<le> length (fst br)"
      by (rule length_dropWhile_le)
    moreover from mem have "0 < length (fst br)"
      by (cases "fst br") auto
    ultimately have "length (dropWhile (\<lambda>c. c \<noteq> d) (fst br)) - 1 < length (fst br)"
      by arith
    then show ?thesis
      by (simp add: br')
  qed
  have rd: "length (fst br') \<le> length (fst br)"
    if "(Inr x, br') = Read br n" for x br' br n
    using that by (auto simp: Read_def split: if_splits)
  from 2 show ?case
    by (auto dest!: rs rd)
qed

declare readEntries_cmd.simps [simp del]

definition ReadTree_cmd :: "codec \<Rightarrow> Repository \<Rightarrow> string \<Rightarrow> fs \<Rightarrow> (error + string) \<times> fs" where
  "ReadTree_cmd z r hash s =
     (let isValid = (length hash = 40) in
      if \<not> isValid
      then (Inl (Wrapf ''%w expected 40 characters, got: %d'' [itoa (length hash)] ErrInvalidHash), s)
      else
        (let blobPath = path_Join (root r) [''.git'', ''objects'', take 2 hash, drop 2 hash]
         in case os_Open blobPath s of
              (Inl err, s1) \<Rightarrow> (Inl (Wrapf ''failed to open file: %w'' [] err), s1)
            | (Inr blobFile, s1) \<Rightarrow>
                (case zlib_NewReader z blobFile of
                   Inl err \<Rightarrow> (Inl (Wrapf ''failed to read the contents: %w'' [] err), s1)
                 | Inr br \<Rightarrow>
                     (case ReadString br (CHR '' '') of
                        (Inl err, br1) \<Rightarrow> (Inl (Wrapf ''error reading type: %w'' [] err), s1)
                      | (Inr typ, br1) \<Rightarrow>
                          (if typ \<noteq> ''tree ''
                           then (Inl (Errorf ''expected type to be tree, got: %s'' [typ]), s1)
                           else
                             (case ReadString br1 NUL of
                                (Inl err, br2) \<Rightarrow>
                                  (Inl (Wrapf ''error reading null byte: %w'' [] err), s1)
                              | (Inr len, br2) \<Rightarrow>
                                  (case readEntries_cmd br2 [] of
                                     Inl err \<Rightarrow> (Inl err, s1)
                                   | Inr names \<Rightarrow> (Inr (strings_Join names [LF]), s1))))))))"

section \<open>Writing blobs and trees\<close>

text \<open>
  \<^verbatim>\<open>fs.ValidPath\<close>, and \<^verbatim>\<open>Open\<close> of the file system \<^verbatim>\<open>os.DirFS(dir)\<close>: a name
  that is not valid is refused before the operating system is asked.
\<close>

definition ValidPath :: "string \<Rightarrow> bool" where
  "ValidPath name =
     (if name = ''.'' then True
      else list_all (\<lambda>c. c \<noteq> [] \<and> c \<noteq> ''.'' \<and> c \<noteq> ''..'') (split_on (CHR ''/'') name))"

definition DirFS_Open :: "path \<Rightarrow> string \<Rightarrow> fs \<Rightarrow> (error + node) \<times> fs" where
  "DirFS_Open dir name s =
     (if ValidPath name then os_Open (path_Join dir [name]) s else (Inl (PathError EINVAL), s))"

text \<open>
  \<^verbatim>\<open>hashBlob\<close>: the file system \<open>fsys\<close> is given by its directory.  \<^verbatim>\<open>Stat\<close> on the
  open file does not fail here, and the size it reports is the length of the content.
\<close>

definition hashBlob :: "path \<Rightarrow> string \<Rightarrow> fs \<Rightarrow> (error + string \<times> string) \<times> fs" where
  "hashBlob fsys filename s =
     (case DirFS_Open fsys filename s of
        (Inl err, s1) \<Rightarrow> (Inl (Wrapf ''failed to open file: %w'' [] err), s1)
      | (Inr file, s1) \<Rightarrow>
          (case file_ReadAll file of
             Inl err \<Rightarrow> (Inl (Wrapf ''failed to copy the contents: %w'' [] err), s1)
           | Inr fBuf \<Rightarrow>
               (let header = ''blob '' @ itoa (length fBuf) @ [NUL];
                    blob = header @ fBuf;
                    hash = hex (sha1_Sum blob)
                in (Inr (hash, blob), s1))))"

definition WriteBlob :: "codec \<Rightarrow> Repository \<Rightarrow> path \<Rightarrow> string \<Rightarrow> fs \<Rightarrow> (error + string) \<times> fs" where
  "WriteBlob z r fsys filename s =
     (case hashBlob fsys filename s of
        (Inl err, s1) \<Rightarrow> (Inl (Wrapf ''failed to hash the file: %w'' [] err), s1)
      | (Inr (hash, blob), s1) \<Rightarrow>
          (let dirPath = path_Join (root r) [''.git/objects'', take 2 hash]
           in case os_MkdirAll dirPath s1 of
                (Some err, s2) \<Rightarrow> (Inl (Wrapf ''failed to create the directory: %w'' [] err), s2)
              | (None, s2) \<Rightarrow>
                  (let blobFile = path_Join dirPath [drop 2 hash]
                   in case os_Create blobFile s2 of
                        (Some err, s3) \<Rightarrow>
                          (Inl (Wrapf ''failed to create the file: %w'' [] err), s3)
                      | (None, s3) \<Rightarrow> (Inr hash, fd_Write blobFile (deflate z blob) s3))))"

text \<open>
  \<^verbatim>\<open>treeTable\<close>.  The recursion follows the directory: \<open>treeTable_dir dirname n\<close> is the
  call on the directory \<open>dirname\<close> whose node is \<open>n\<close>, and \<open>treeTable_entries\<close> is its loop
  over the entries that \<^verbatim>\<open>os.ReadDir\<close> returned, with the table built so far.  The value
  named \<^verbatim>\<open>subHash\<close> is what the recursive call returns: the table of the subdirectory.
\<close>

function treeTable_dir :: "path \<Rightarrow> node \<Rightarrow> fs \<Rightarrow> (error + string) \<times> fs"
  and treeTable_entries ::
    "path \<Rightarrow> (string \<times> node) list \<Rightarrow> string \<Rightarrow> fs \<Rightarrow> (error + string) \<times> fs"
where
  "treeTable_dir dirname n s =
     (case os_ReadDir n of
        Inl err \<Rightarrow>
          (Inl (Wrapf ''failed to read the directory: %w'' [] err),
           s\<lparr>trace := trace s @ [SysReadDir dirname]\<rparr>)
      | Inr dirEntries \<Rightarrow>
          treeTable_entries dirname dirEntries [] (s\<lparr>trace := trace s @ [SysReadDir dirname]\<rparr>))"
| "treeTable_entries dirname [] table s = (Inr table, s)"
| "treeTable_entries dirname ((name, n) # dirEntries) table s =
     (case n of
        Dir kids \<Rightarrow>
          (if name = ''.git'' then treeTable_entries dirname dirEntries table s
           else
             (case treeTable_dir (path_Join dirname [name]) n s of
                (Inl err, s1) \<Rightarrow> (Inl (Wrapf ''failed to write the tree: %w'' [] err), s1)
              | (Inr subHash, s1) \<Rightarrow>
                  treeTable_entries dirname dirEntries
                    (table @ ''40000 '' @ name @ [NUL] @ hex (sha1_Sum subHash)) s1))
      | File c \<Rightarrow>
          (case hashBlob dirname name s of
             (Inl err, s1) \<Rightarrow> (Inl (Wrapf ''failed to hash the file: %w'' [] err), s1)
           | (Inr (hash, blob), s1) \<Rightarrow>
               treeTable_entries dirname dirEntries
                 (table @ ''100644 '' @ name @ [NUL] @ hash) s1))"
  by pat_completeness auto
termination
proof (relation "measure (\<lambda>x. case x of
           Inl (dirname, n, s) \<Rightarrow> 2 * size n + 1
         | Inr (dirname, es, table, s) \<Rightarrow> 2 * size_list (size_prod (\<lambda>x. 0) size) es)",
       goal_cases)
  case 1
  show ?case by simp
next
  case (2 dirname n s dirEntries)
  have ins: "size_list f (insort_key g x xs) = Suc (f x + size_list f xs)"
    for f :: "string \<times> node \<Rightarrow> nat" and g :: "string \<times> node \<Rightarrow> string" and x xs
    by (induction xs) auto
  have srt: "size_list f (sort_key g xs) = size_list f xs"
    for f :: "string \<times> node \<Rightarrow> nat" and g :: "string \<times> node \<Rightarrow> string" and xs
    by (induction xs) (auto simp: ins)
  from 2 show ?case
    by (auto simp: os_ReadDir_def srt split: node.splits)
next
  case 3
  then show ?case by simp
next
  case 4
  then show ?case by simp
next
  case 5
  then show ?case by simp
next
  case 6
  then show ?case by simp
qed

declare treeTable_dir.simps [simp del]

definition treeTable :: "path \<Rightarrow> fs \<Rightarrow> (error + string) \<times> fs" where
  "treeTable dirname s =
     (case lookup (tree s) dirname of
        Inl e \<Rightarrow>
          (Inl (Wrapf ''failed to read the directory: %w'' [] (PathError e)),
           s\<lparr>trace := trace s @ [SysReadDir dirname]\<rparr>)
      | Inr n \<Rightarrow> treeTable_dir dirname n s)"

definition WriteTree :: "codec \<Rightarrow> Repository \<Rightarrow> path \<Rightarrow> fs \<Rightarrow> (error + string) \<times> fs" where
  "WriteTree z r dirname s =
     (case treeTable dirname s of
        (Inl err, s1) \<Rightarrow> (Inl (Wrapf ''failed to hash the tree: %w'' [] err), s1)
      | (Inr table, s1) \<Rightarrow>
          (let output = ''tree '' @ itoa (length table) @ [NUL] @ table;
               hash = hex (sha1_Sum output);
               dirPath = path_Join (root r) [''.git/objects'', take 2 hash]
           in case os_MkdirAll dirPath s1 of
                (Some err, s2) \<Rightarrow> (Inl (Wrapf ''failed to create the directory: %w'' [] err), s2)
              | (None, s2) \<Rightarrow>
                  (let treeFile = path_Join dirPath [drop 2 hash]
                   in case os_Create treeFile s2 of
                        (Some err, s3) \<Rightarrow>
                          (Inl (Wrapf ''failed to create the file: %w'' [] err), s3)
                      | (None, s3) \<Rightarrow> (Inr hash, fd_Write treeFile (deflate z output) s3))))"

section \<open>Concrete inputs\<close>

text \<open>
  A codec that stores the bytes as they are, and an empty file system; they serve to run
  the operations on concrete inputs.
\<close>

definition stored_codec :: codec where
  "stored_codec = \<lparr>deflate = (\<lambda>x. x), inflate = (\<lambda>c. Some (c, EOF))\<rparr>"

definition empty_fs :: fs where
  "empty_fs = \<lparr>tree = Dir [], trace = []\<rparr>"

text \<open>
  A hash of 40 bytes, and the file system in which the repository \<^verbatim>\<open>/repo\<close> stores one
  object file, with the given bytes, under that hash.
\<close>

definition hash_aa :: string where
  "hash_aa = ''aabbbbbbbbbbbbbbbbbbbbbbbbbbbbbbbbbbbbbb''"

definition object_fs :: "string \<Rightarrow> fs" where
  "object_fs content =
     \<lparr>tree = Dir [(''repo'', Dir [(''.git'', Dir [(''objects'',
               Dir [(''aa'', Dir [(''bbbbbbbbbbbbbbbbbbbbbbbbbbbbbbbbbbbbbb'', File content)])])])])],
      trace = []\<rparr>"

text \<open>
  A file system with an empty repository directory \<^verbatim>\<open>/repo\<close> and a working directory
  \<^verbatim>\<open>/work\<close>: with the file \<^verbatim>\<open>a\<close> whose content is \<^verbatim>\<open>x\<close>, with the empty
  subdirectory \<^verbatim>\<open>d\<close>, and with the file \<^verbatim>\<open>test.txt\<close> whose content is
  \<^verbatim>\<open>test content\<close>.
\<close>

definition work_fs :: fs where
  "work_fs = \<lparr>tree = Dir [(''repo'', Dir []), (''work'', Dir [(''a'', File ''x'')])], trace = []\<rparr>"

definition subdir_fs :: fs where
  "subdir_fs = \<lparr>tree = Dir [(''repo'', Dir []), (''work'', Dir [(''d'', Dir [])])], trace = []\<rparr>"

definition test_fs :: fs where
  "test_fs =
     \<lparr>tree = Dir [(''repo'', Dir []), (''work'', Dir [(''test.txt'', File ''test content'')])],
      trace = []\<rparr>"

section \<open>Properties of the file system operations\<close>

text \<open>
  What is written can be read back, a write leaves the regular files at other paths as
  they were, and \<^verbatim>\<open>MkdirAll\<close> leaves every regular file as it was.
\<close>

lemma put_file_lookup:
  "put_file t p c = Inr t' \<Longrightarrow> lookup t' p = Inr (File c)"
proof (induction t p c arbitrary: t' rule: put_file.induct)
  case (4 kids x xs c)
  show ?case
  proof (cases "map_of kids x")
    case None
    with 4 show ?thesis
      by (auto split: if_splits simp: map_add_def)
  next
    case (Some k)
    with 4 show ?thesis
      by (auto split: sum.splits simp: update_conv')
  qed
qed auto

lemma lookup_File:
  "q \<noteq> [] \<Longrightarrow> lookup (File c) q = Inl ENOTDIR"
  by (cases q) auto

lemma put_file_other:
  "put_file t p c = Inr t' \<Longrightarrow> q \<noteq> p \<Longrightarrow>
     (lookup t' q = Inr (File c')) = (lookup t q = Inr (File c'))"
proof (induction t p c arbitrary: t' q rule: put_file.induct)
  case (4 kids x xs c)
  show ?case
  proof (cases q)
    case Nil
    with 4 show ?thesis
      by (auto split: option.splits sum.splits if_splits)
  next
    case (Cons y ys)
    show ?thesis
    proof (cases "map_of kids x")
      case None
      with 4 Cons show ?thesis
        by (cases ys) (auto split: if_splits option.splits simp: map_add_def)
    next
      case (Some k)
      with 4 Cons show ?thesis
        by (cases "y = x") (auto split: sum.splits option.splits simp: update_conv')
    qed
  qed
qed (auto simp: lookup_File)

lemma mkdir_all_fresh:
  "mkdir_all (Dir []) d = Inr t' \<Longrightarrow> lookup t' q \<noteq> Inr (File c)"
proof (induction d arbitrary: t' q)
  case Nil
  then show ?case by (cases q) auto
next
  case (Cons x xs)
  then show ?case
    by (cases q) (auto split: sum.splits if_splits)
qed

lemma mkdir_all_files:
  "mkdir_all t d = Inr t' \<Longrightarrow> (lookup t' q = Inr (File c)) = (lookup t q = Inr (File c))"
proof (induction t d arbitrary: t' q rule: mkdir_all.induct)
  case (3 kids x xs)
  show ?case
  proof (cases q)
    case Nil
    with 3 show ?thesis
      by (auto split: option.splits sum.splits)
  next
    case (Cons y ys)
    show ?thesis
    proof (cases "map_of kids x")
      case None
      with 3(3) Cons show ?thesis
        by (cases "y = x")
          (auto split: sum.splits option.splits simp: map_add_def dest: mkdir_all_fresh)
    next
      case (Some k)
      with 3 Cons show ?thesis
        by (cases "y = x") (auto split: sum.splits option.splits simp: update_conv')
    qed
  qed
qed auto

lemma put_file_again:
  "lookup t p = Inr (File c0) \<Longrightarrow> \<exists>t'. put_file t p c = Inr t'"
proof (induction t p c arbitrary: rule: put_file.induct)
  case (4 kids x xs c)
  then show ?case
    by (cases "map_of kids x") (auto split: sum.splits)
qed auto

section \<open>Properties of splitting at a byte\<close>

lemma split_on_prefix:
  "d \<notin> set h \<Longrightarrow> split_on d (h @ d # p) = h # split_on d p"
  by (induction h) auto

lemma split_on_hd:
  "\<exists>ws. split_on d p = takeWhile (\<lambda>c. c \<noteq> d) p # ws"
proof (induction p)
  case Nil
  show ?case by simp
next
  case (Cons a p)
  then obtain ws where "split_on d p = takeWhile (\<lambda>c. c \<noteq> d) p # ws"
    by blast
  then show ?case
    by simp
qed

lemma takeWhile_strict_prefix:
  "d \<in> set p \<Longrightarrow> \<exists>rest. p = takeWhile (\<lambda>c. c \<noteq> d) p @ [d] @ rest"
proof (induction p)
  case Nil
  then show ?case by simp
next
  case (Cons a p)
  then show ?case by (cases "a = d") auto
qed

section \<open>Evaluation on concrete inputs\<close>

lemmas ReadTree_eval = ReadTree_def ReadTree_cmd_def os_Open_def zlib_NewReader_def
  ReadString_def Peek_def Read_def readEntries.simps readEntries_cmd.simps
  hash_aa_def object_fs_def NewRepository_def stored_codec_def path_Join_def clean_step_def
  NUL_def LF_def

lemma replicate_numeral: "replicate (numeral k) x = x # replicate (pred_numeral k) x"
  by (simp add: numeral_eq_Suc)

text \<open>SHA-1 is evaluated by rewriting with its definitions; the digests below are the ones
  that \<^verbatim>\<open>sha1sum\<close> prints for the same bytes.\<close>

lemmas sha1_eval = sha1_Sum_def sha1_pad_def byte_of_def be64_def be32_def rotl_def
  sha1_f_def sha1_k_def hex_def hexdigit_def replicate_numeral sha1_blocks.simps
  sha1_rounds.simps NUL_def

lemma sha1_empty:
  "hex (sha1_Sum []) = ''da39a3ee5e6b4b0d3255bfef95601890afd80709''"
  by (simp add: sha1_eval)

lemma sha1_blob_test_content:
  "hex (sha1_Sum (''blob 12'' @ [NUL] @ ''test content''))
     = ''08cf6101416f0ce0dda3c80e627f333854c4085c''"
  by (simp add: sha1_eval)

lemma sha1_blob_x:
  "hex (sha1_Sum (''blob 1'' @ [NUL] @ ''x'')) = ''c1b0730e0133447badcfd47fd144e254807b06e1''"
  by (simp add: sha1_eval)

lemma sha1_empty_tree:
  "hex (sha1_Sum (''tree 0'' @ [NUL])) = ''4b825dc642cb6eb9a060e54bf8d69288fbee4904''"
  by (simp add: sha1_eval)

lemma sha1_of_empty_tree_hash:
  "hex (sha1_Sum ''4b825dc642cb6eb9a060e54bf8d69288fbee4904'')
     = ''2c74b2b5a39b54beae7d7c0e994feb84693a3466''"
  by (simp add: sha1_eval)

lemma sha1_tree_a:
  "hex (sha1_Sum (''tree 49'' @ [NUL] @ ''100644 a'' @ [NUL]
          @ ''c1b0730e0133447badcfd47fd144e254807b06e1''))
     = ''5bb52422ec42d23d770454e635068a06c7585a79''"
  by (simp add: sha1_eval)

lemma length_sha1_Sum: "length (sha1_Sum m) = 20"
  by (simp add: sha1_Sum_def be32_def split: prod.splits)

lemma length_hex: "length (hex bs) = 2 * length bs"
  by (induction bs) (simp_all add: hex_def)

lemmas treeTable_eval = treeTable_def treeTable_dir.simps os_ReadDir_def hashBlob_def
  DirFS_Open_def ValidPath_def os_Open_def path_Join_def clean_step_def file_ReadAll_def
  itoa.simps digit_def

lemma treeTable_work_fs:
  "fst (treeTable [''work''] work_fs)
     = Inr (''100644 a'' @ [NUL] @ ''c1b0730e0133447badcfd47fd144e254807b06e1'')"
  by (simp add: treeTable_eval work_fs_def sha1_blob_x [simplified])

lemma treeTable_subdir_fs:
  "fst (treeTable [''work''] subdir_fs)
     = Inr (''40000 d'' @ [NUL] @ ''da39a3ee5e6b4b0d3255bfef95601890afd80709'')"
  by (simp add: treeTable_eval subdir_fs_def sha1_empty)

lemmas store_eval = os_MkdirAll_def os_Create_def fd_Write_def NewRepository_def
  stored_codec_def

lemma WriteTree_work_fs:
  "fst (WriteTree stored_codec (NewRepository [''repo'']) [''work''] work_fs)
     = Inr ''5bb52422ec42d23d770454e635068a06c7585a79''"
  "tree (snd (WriteTree stored_codec (NewRepository [''repo'']) [''work''] work_fs))
     = Dir [(''repo'', Dir [(''.git'', Dir [(''objects'', Dir [(''5b'',
              Dir [(''b52422ec42d23d770454e635068a06c7585a79'',
                    File (''tree 49'' @ [NUL] @ ''100644 a'' @ [NUL]
                            @ ''c1b0730e0133447badcfd47fd144e254807b06e1''))])])])]),
            (''work'', Dir [(''a'', File ''x'')])]"
  by (simp_all add: WriteTree_def treeTable_eval store_eval work_fs_def Let_def
      sha1_blob_x [simplified] sha1_tree_a [simplified])

lemma ReadTree_written_tree:
  assumes "tree s
     = Dir [(''repo'', Dir [(''.git'', Dir [(''objects'', Dir [(''5b'',
              Dir [(''b52422ec42d23d770454e635068a06c7585a79'',
                    File (''tree 49'' @ [NUL] @ ''100644 a'' @ [NUL]
                            @ ''c1b0730e0133447badcfd47fd144e254807b06e1''))])])])]),
            (''work'', Dir [(''a'', File ''x'')])]"
  shows "fst (ReadTree stored_codec (NewRepository [''repo''])
                ''5bb52422ec42d23d770454e635068a06c7585a79'' s)
     = Inl (Wrapf ''error reading mode: %w'' [] EOF)"
  using assms by (simp add: ReadTree_eval)

section \<open>Hash validation\<close>

text \<open>
  Claim C3.  A hash whose length in bytes is not 40 is rejected by \<^verbatim>\<open>CatFile\<close> and by
  \<^verbatim>\<open>ReadTree\<close> (in both revisions) with an error that wraps \<open>ErrInvalidHash\<close>, and the
  state of the file system that is returned is the one that was given: its tree is
  unchanged and no call to the operating system has been added to its trace.
\<close>

theorem invalid_hash_rejected:
  "length hash \<noteq> 40 \<Longrightarrow>
     CatFile z r hash s =
       (Inl (Wrapf ''%w expected 40 characters, got: %d'' [itoa (length hash)] ErrInvalidHash), s)
   \<and> ReadTree z r hash s =
       (Inl (Wrapf ''%w expected 40 characters, got: %d'' [itoa (length hash)] ErrInvalidHash), s)
   \<and> ReadTree_cmd z r hash s =
       (Inl (Wrapf ''%w expected 40 characters, got: %d'' [itoa (length hash)] ErrInvalidHash), s)
   \<and> errors_Is (Wrapf ''%w expected 40 characters, got: %d'' [itoa (length hash)] ErrInvalidHash)
        ErrInvalidHash"
  by (simp add: CatFile_def ReadTree_def ReadTree_cmd_def)

theorem invalid_hash_rejected_witness:
  "length ''123'' \<noteq> 40
   \<and> CatFile stored_codec (NewRepository [''repo'']) ''123'' empty_fs =
       (Inl (Wrapf ''%w expected 40 characters, got: %d'' [''3''] ErrInvalidHash), empty_fs)
   \<and> ReadTree stored_codec (NewRepository [''repo'']) ''123'' empty_fs =
       (Inl (Wrapf ''%w expected 40 characters, got: %d'' [''3''] ErrInvalidHash), empty_fs)
   \<and> trace (snd (CatFile stored_codec (NewRepository [''repo'']) ''123'' empty_fs)) = []"
  using invalid_hash_rejected [of "''123''" stored_codec "NewRepository [''repo'']" empty_fs]
  by (simp add: itoa.simps digit_def empty_fs_def)

section \<open>Initialising twice\<close>

text \<open>
  Claim C8.  After a call of \<^verbatim>\<open>Init\<close> that succeeded, a second call on the same handle
  returns \<open>ErrRepositoryAlreadyInitialized\<close> and returns the state of the file system
  as it was given (no call to the operating system is made), so that the file
  \<^verbatim>\<open>.git/HEAD\<close> written by the first call still holds its content.
\<close>

theorem Init_twice:
  assumes "Init r s = (None, r', s')"
  shows "Init r' s' = (Some ErrRepositoryAlreadyInitialized, r', s')
    \<and> lookup (tree (snd (snd (Init r' s')))) (path_Join (root r') [''.git/HEAD''])
        = Inr (File (''ref: refs/heads/master'' @ [LF]))"
proof -
  from assms have ninit: "\<not> initialized r"
    by (auto simp: Init_def)
  from assms ninit obtain s1 where
    wr: "os_WriteFile (path_Join (root r) [''.git/HEAD'']) (''ref: refs/heads/master'' @ [LF]) s1
          = (None, s')"
    and r': "r' = r\<lparr>initialized := True\<rparr>"
    by (auto simp: Init_def Let_def split: prod.splits option.splits)
  from wr have "lookup (tree s') (path_Join (root r) [''.git/HEAD''])
      = Inr (File (''ref: refs/heads/master'' @ [LF]))"
    by (auto simp: os_WriteFile_def split: sum.splits dest: put_file_lookup)
  moreover from r' have "Init r' s' = (Some ErrRepositoryAlreadyInitialized, r', s')"
    by (simp add: Init_def)
  ultimately show ?thesis
    by (simp add: r')
qed

theorem Init_twice_witness:
  "fst (Init (NewRepository [''repo'']) empty_fs) = None
   \<and> fst (Init (fst (snd (Init (NewRepository [''repo'']) empty_fs)))
             (snd (snd (Init (NewRepository [''repo'']) empty_fs))))
       = Some ErrRepositoryAlreadyInitialized
   \<and> snd (snd (Init (fst (snd (Init (NewRepository [''repo'']) empty_fs)))
                  (snd (snd (Init (NewRepository [''repo'']) empty_fs)))))
       = snd (snd (Init (NewRepository [''repo'']) empty_fs))"
proof -
  have ok: "fst (Init (NewRepository [''repo'']) empty_fs) = None"
    by (simp add: Init_def NewRepository_def empty_fs_def path_Join_def clean_step_def
        os_MkdirAll_def os_WriteFile_def)
  then have "Init (NewRepository [''repo'']) empty_fs =
      (None, fst (snd (Init (NewRepository [''repo'']) empty_fs)),
       snd (snd (Init (NewRepository [''repo'']) empty_fs)))"
    by (simp add: prod_eq_iff)
  from Init_twice [OF this] ok show ?thesis
    by simp
qed

section \<open>What CatFile returns\<close>

text \<open>
  Claim C10.  Let the object stored under a hash of 40 bytes decompress to
  \<open>header\<close>, a null byte and \<open>payload\<close>, where \<open>header\<close> has no null byte.  Then
  \<^verbatim>\<open>CatFile\<close> returns the second piece of the split at null bytes, i.e. the payload up to
  its first null byte.  When the payload has a null byte, this is the part of the framed
  object strictly between its first and second null bytes, a strict prefix of the payload;
  when it has none, it is the whole payload.
\<close>

theorem CatFile_up_to_second_null:
  assumes len: "length hash = 40"
    and obj: "lookup (tree s) (path_Join (root r) [''.git'', ''objects'', take 2 hash, drop 2 hash])
           = Inr (File c)"
    and inf: "inflate z c = Some (header @ [NUL] @ payload, EOF)"
    and hdr: "NUL \<notin> set header"
  shows "fst (CatFile z r hash s) = Inr (takeWhile (\<lambda>b. b \<noteq> NUL) payload)
    \<and> (NUL \<in> set payload \<longrightarrow>
         strict_prefix (takeWhile (\<lambda>b. b \<noteq> NUL) payload) payload
         \<and> (\<exists>rest. header @ [NUL] @ payload
               = header @ [NUL] @ takeWhile (\<lambda>b. b \<noteq> NUL) payload @ [NUL] @ rest))
    \<and> (NUL \<notin> set payload \<longrightarrow> takeWhile (\<lambda>b. b \<noteq> NUL) payload = payload)"
proof -
  obtain ws where ws: "split_on NUL payload = takeWhile (\<lambda>b. b \<noteq> NUL) payload # ws"
    using split_on_hd by blast
  from hdr ws have sp: "split_on NUL (header @ NUL # payload)
      = header # takeWhile (\<lambda>b. b \<noteq> NUL) payload # ws"
    by (simp add: split_on_prefix)
  have op: "os_Open (path_Join (root r) [''.git'', ''objects'', take 2 hash, drop 2 hash]) s
      = (Inr (File c), s\<lparr>trace := trace s @
           [SysOpen (path_Join (root r) [''.git'', ''objects'', take 2 hash, drop 2 hash])]\<rparr>)"
    by (simp add: os_Open_def obj)
  have nr: "zlib_NewReader z (File c) = Inr (header @ NUL # payload, EOF)"
    using inf by (simp add: zlib_NewReader_def)
  have ra: "ReadAll (header @ NUL # payload, EOF) = Inr (header @ NUL # payload)"
    by (simp add: ReadAll_def)
  have res: "fst (CatFile z r hash s) = Inr (takeWhile (\<lambda>b. b \<noteq> NUL) payload)"
    by (simp add: CatFile_def len op nr ra sp)
  have "strict_prefix (takeWhile (\<lambda>b. b \<noteq> NUL) payload) payload
      \<and> (\<exists>rest. header @ [NUL] @ payload
            = header @ [NUL] @ takeWhile (\<lambda>b. b \<noteq> NUL) payload @ [NUL] @ rest)"
    if "NUL \<in> set payload"
  proof -
    define t where "t = takeWhile (\<lambda>b. b \<noteq> NUL) payload"
    from takeWhile_strict_prefix [OF that] obtain rest
      where "payload = takeWhile (\<lambda>b. b \<noteq> NUL) payload @ [NUL] @ rest" ..
    then have rest: "payload = t @ [NUL] @ rest"
      unfolding t_def .
    have "strict_prefix t (t @ [NUL] @ rest)"
      by (simp add: strict_prefix_def)
    with rest have "strict_prefix t payload \<and> header @ [NUL] @ payload = header @ [NUL] @ t @ [NUL] @ rest"
      by simp
    then show ?thesis
      unfolding t_def by blast
  qed
  with res show ?thesis
    by (auto simp: takeWhile_eq_all_conv)
qed

theorem CatFile_up_to_second_null_witness:
  "fst (CatFile stored_codec (NewRepository [''repo'']) hash_aa
          (object_fs (''blob 3'' @ [NUL] @ ''a'' @ [NUL] @ ''b''))) = Inr ''a''
   \<and> strict_prefix ''a'' (''a'' @ [NUL] @ ''b'')
   \<and> NUL \<in> set (''a'' @ [NUL] @ ''b'')"
  using CatFile_up_to_second_null [of hash_aa "object_fs (''blob 3'' @ [NUL] @ ''a'' @ [NUL] @ ''b'')"
      "NewRepository [''repo'']" "''blob 3'' @ [NUL] @ ''a'' @ [NUL] @ ''b''" stored_codec
      "''blob 3''" "''a'' @ [NUL] @ ''b''"]
  by (simp add: hash_aa_def object_fs_def NewRepository_def stored_codec_def path_Join_def
      clean_step_def NUL_def)

section \<open>Truncated hash fields\<close>

text \<open>
  Claim C7, evaluated.  The stored tree declares 29 bytes and holds one entry whose hash
  field is cut after 5 of its 20 bytes.  \<^verbatim>\<open>br.Read\<close> returns these 5 bytes without an
  error, the count is not looked at, and \<^verbatim>\<open>ReadTree\<close> returns the listing of the name
  instead of a parse error.
\<close>

theorem ReadTree_short_hash_accepted:
  "fst (ReadTree stored_codec (NewRepository [''repo'']) hash_aa
          (object_fs (''tree 29'' @ [NUL] @ ''100644 a'' @ [NUL] @ ''12345'')))
     = Inr (''a'' @ [LF])"
  by (simp add: ReadTree_eval)

section \<open>The order of the listing\<close>

text \<open>
  Claim C2, evaluated.  The stored tree holds the file \<^verbatim>\<open>a-b\<close> and then the directory
  \<^verbatim>\<open>a\<close>, the order in which git itself stores these two entries.  \<^verbatim>\<open>ReadTree\<close> lists
  the names in the stored order, and the older revision lists two empty names without a
  final newline; the listing sorted byte-wise, which the claim describes, starts with
  \<^verbatim>\<open>a\<close>.
\<close>

theorem ReadTree_not_sorted:
  "fst (ReadTree stored_codec (NewRepository [''repo'']) hash_aa
          (object_fs (''tree 59'' @ [NUL]
             @ ''100644 a-b'' @ [NUL] @ ''01234567890123456789''
             @ ''40000 a'' @ [NUL] @ ''01234567890123456789'')))
     = Inr (''a-b'' @ [LF] @ ''a'' @ [LF])
   \<and> fst (ReadTree_cmd stored_codec (NewRepository [''repo'']) hash_aa
          (object_fs (''tree 59'' @ [NUL]
             @ ''100644 a-b'' @ [NUL] @ ''01234567890123456789''
             @ ''40000 a'' @ [NUL] @ ''01234567890123456789'')))
     = Inr [LF]
   \<and> strings_Join (sort [''a-b'', ''a'']) [LF] @ [LF] = ''a'' @ [LF] @ ''a-b'' @ [LF]"
  by (simp add: ReadTree_eval)

section \<open>Reading back a written tree\<close>

text \<open>
  Claim C1, evaluated.  \<^verbatim>\<open>/work\<close> holds the single file \<^verbatim>\<open>a\<close>.  \<^verbatim>\<open>WriteTree\<close>
  succeeds and stores a tree whose entry carries a hash field of 40 hexadecimal digits;
  \<^verbatim>\<open>ReadTree\<close> on the returned hash skips 20 bytes of it, takes the other 20 for the
  mode of a next entry and fails, so no set of names is returned.
\<close>

theorem ReadTree_of_WriteTree_fails:
  "fst (WriteTree stored_codec (NewRepository [''repo'']) [''work''] work_fs)
     = Inr ''5bb52422ec42d23d770454e635068a06c7585a79''
   \<and> fst (ReadTree stored_codec (NewRepository [''repo''])
            ''5bb52422ec42d23d770454e635068a06c7585a79''
            (snd (WriteTree stored_codec (NewRepository [''repo'']) [''work''] work_fs)))
     = Inl (Wrapf ''error reading mode: %w'' [] EOF)"
  using WriteTree_work_fs(1) ReadTree_written_tree [OF WriteTree_work_fs(2)]
  by (rule conjI)

section \<open>The entries of a tree\<close>

text \<open>
  Claim C4, evaluated.  The entry that \<^verbatim>\<open>treeTable\<close> writes for the file \<^verbatim>\<open>a\<close> is
  the mode \<^verbatim>\<open>100644\<close>, a space, the name, a null byte and then the hash as the 40
  hexadecimal digits that \<^verbatim>\<open>hashBlob\<close> returns, not the 20 bytes of the digest.
\<close>

theorem treeTable_hash_field_is_hex:
  "fst (treeTable [''work''] work_fs)
     = Inr (''100644 a'' @ [NUL] @ hex (sha1_Sum (''blob 1'' @ [NUL] @ ''x'')))
   \<and> length (hex (sha1_Sum (''blob 1'' @ [NUL] @ ''x''))) = 40
   \<and> length (sha1_Sum (''blob 1'' @ [NUL] @ ''x'')) = 20"
  by (simp add: treeTable_work_fs sha1_blob_x [simplified] length_sha1_Sum)

text \<open>
  Claim C5, evaluated.  \<^verbatim>\<open>/work\<close> holds the empty subdirectory \<^verbatim>\<open>d\<close>.  The hash
  field of its entry is the digest, in hexadecimal, of what the recursive call of
  \<^verbatim>\<open>treeTable\<close> returns, the empty table of \<^verbatim>\<open>d\<close>.  The Object Hash of that sub-tree
  is the digest of \<^verbatim>\<open>tree 0\<close> and a null byte, and the digest over its hexadecimal
  string, which the claim describes, is a different value.
\<close>

theorem treeTable_subdir_field_digests_table:
  "fst (treeTable [''work''] subdir_fs) = Inr (''40000 d'' @ [NUL] @ hex (sha1_Sum []))
   \<and> hex (sha1_Sum []) = ''da39a3ee5e6b4b0d3255bfef95601890afd80709''
   \<and> hex (sha1_Sum (hex (sha1_Sum (''tree 0'' @ [NUL]))))
       = ''2c74b2b5a39b54beae7d7c0e994feb84693a3466''"
  by (simp add: treeTable_subdir_fs sha1_empty sha1_empty_tree [simplified]
      sha1_of_empty_tree_hash [simplified])

end
